theory Spec2Isabelle
  imports Complex_Main
begin

section \<open>Numbers, vectors and the shape vocabulary\<close>

text \<open>
  The program is \<^verbatim>\<open>src/components/PuzzleScene.tsx\<close> with the types of
  \<^verbatim>\<open>types.ts\<close>. A JavaScript \<^verbatim>\<open>number\<close> is modelled as a real: rounding,
  infinities and NaN of IEEE doubles are outside this development, every arithmetic
  operation is the exact one. \<^verbatim>\<open>resolution\<close> is the integer the resolution slider
  delivers (\<^verbatim>\<open>parseInt\<close>), a natural number.
\<close>

datatype ShapeType =
  Sphere | Torus | Box | Gyroid | Mandelbulb | Twist | Atom | Julia | Heart | SchwarzP | Star

datatype PuzzleMode = SINGLE | DESIGNER

text \<open>\<^verbatim>\<open>THREE.Vector3\<close>: three numbers; \<^verbatim>\<open>length()\<close> and \<^verbatim>\<open>lengthSq()\<close> as in three.js.\<close>

datatype Vector3 = Vector3 (vx: real) (vy: real) (vz: real)

definition lengthSq :: "Vector3 \<Rightarrow> real" where
  "lengthSq p = vx p * vx p + vy p * vy p + vz p * vz p"

definition length_v :: "Vector3 \<Rightarrow> real" where
  "length_v p = sqrt (vx p * vx p + vy p * vy p + vz p * vz p)"

text \<open>\<^verbatim>\<open>Math.atan2(y, x)\<close> on reals (the signed zeros of doubles do not exist here).\<close>

definition Math_atan2 :: "real \<Rightarrow> real \<Rightarrow> real" where
  "Math_atan2 b a =
     (if 0 < a then arctan (b / a)
      else if a < 0 then (if 0 \<le> b then arctan (b / a) + pi else arctan (b / a) - pi)
      else if 0 < b then pi / 2
      else if b < 0 then - (pi / 2)
      else 0)"

section \<open>The implicit shape evaluator: \<^verbatim>\<open>isPointInShape\<close>\<close>

text \<open>
  The only division of \<^verbatim>\<open>isPointInShape\<close> is \<^verbatim>\<open>zz/r\<close> in the Mandelbulb loop. It is
  modelled with a check, so that evaluating it below the guard value \<^verbatim>\<open>0.0001\<close> of the
  loop (in particular at \<^verbatim>\<open>r = 0\<close>) is a visible fault of the model instead of the
  silent \<open>a / 0 = 0\<close> of HOL.
\<close>

datatype numeric_fault = DivisorBelowGuard

definition guarded_div :: "real \<Rightarrow> real \<Rightarrow> numeric_fault + real" where
  "guarded_div a r = (if r < 0.0001 then Inl DivisorBelowGuard else Inr (a / r))"

text \<open>
  The Mandelbulb loop \<^verbatim>\<open>for(; iter < maxIter; iter++)\<close>. The first argument is the number
  of iterations still to run (\<^verbatim>\<open>maxIter - iter\<close>); the result is the final value of
  \<^verbatim>\<open>bounded\<close>. \<^verbatim>\<open>n = 8\<close> is the power of the bulb.
\<close>

fun mandelbulb_loop :: "nat \<Rightarrow> Vector3 \<Rightarrow> Vector3 \<Rightarrow> numeric_fault + bool" where
  "mandelbulb_loop 0 p zv = Inr True"
| "mandelbulb_loop (Suc k) p zv =
     (let zx = vx zv; zy = vy zv; zz = vz zv;
          r2 = zx * zx + zy * zy + zz * zz
      in if r2 > 4 then Inr False
         else let r = sqrt r2
              in if r < 0.0001 then Inr True
                 else (case guarded_div zz r of
                         Inl e \<Rightarrow> Inl e
                       | Inr q \<Rightarrow>
                           let theta = arccos q * 8;
                               phi = Math_atan2 zy zx * 8;
                               rn = r ^ 8
                           in mandelbulb_loop k p
                                (Vector3 (rn * sin theta * cos phi + vx p)
                                         (rn * sin theta * sin phi + vy p)
                                         (rn * cos theta + vz p))))"

text \<open>
  The Julia loop on the quaternion \<^verbatim>\<open>(qw, qx, qy, qz)\<close> with the constant
  \<^verbatim>\<open>(cw, cx, cy, cz) = (-0.2, 0.6, 0, 0)\<close>.
\<close>

type_synonym quat = "real \<times> real \<times> real \<times> real"

definition julia_c :: quat where
  "julia_c = (- 0.2, 0.6, 0, 0)"

fun julia_step :: "quat \<Rightarrow> quat" where
  "julia_step (qw, qx, qy, qz) =
     (let nw = qw * qw - qx * qx - qy * qy - qz * qz;
          nx = 2 * qw * qx;
          ny = 2 * qw * qy;
          nz = 2 * qw * qz
      in (case julia_c of (cw, cx, cy, cz) \<Rightarrow> (nw + cw, nx + cx, ny + cy, nz + cz)))"

fun quat_normSq :: "quat \<Rightarrow> real" where
  "quat_normSq (qw, qx, qy, qz) = qw * qw + qx * qx + qy * qy + qz * qz"

fun julia_loop :: "nat \<Rightarrow> quat \<Rightarrow> bool" where
  "julia_loop 0 q = True"
| "julia_loop (Suc k) q = (if quat_normSq q > 4 then False else julia_loop k (julia_step q))"

definition isPointInShape :: "ShapeType \<Rightarrow> Vector3 \<Rightarrow> real \<Rightarrow> numeric_fault + bool" where
  "isPointInShape shape p radius =
     (case shape of
        Sphere \<Rightarrow> Inr (length_v p \<le> radius)
      | Box \<Rightarrow>
          (let limit = radius * 0.8
           in Inr (\<bar>vx p\<bar> \<le> limit \<and> \<bar>vy p\<bar> \<le> limit \<and> \<bar>vz p\<bar> \<le> limit))
      | Torus \<Rightarrow>
          (let R = 0.8; r = 0.32;
               qx = sqrt (vx p * vx p + vz p * vz p) - R;
               qy = vy p
           in Inr (qx * qx + qy * qy \<le> r * r))
      | Gyroid \<Rightarrow>
          (let s = 3.5;
               val = sin (vx p * s) * cos (vy p * s) +
                     sin (vy p * s) * cos (vz p * s) +
                     sin (vz p * s) * cos (vx p * s)
           in Inr (\<bar>val\<bar> < 0.35 \<and> length_v p < radius * 1.3))
      | SchwarzP \<Rightarrow>
          (let s = 3;
               val = cos (vx p * s) + cos (vy p * s) + cos (vz p * s)
           in Inr (\<bar>val\<bar> < 0.3 \<and> length_v p < radius * 1.2))
      | Mandelbulb \<Rightarrow>
          (if length_v p > 1.2 then Inr False
           else mandelbulb_loop 6 p p)
      | Julia \<Rightarrow>
          (let qw = vx p * 1.5;
               qx = vy p * 1.5;
               qy = vz p * 1.5;
               qz = 0
           in if length_v p > 1.2 then Inr False
              else Inr (julia_loop 7 (qw, qx, qy, qz)))
      | Heart \<Rightarrow>
          (let sx = vx p * 1.3;
               sy = vy p * 1.3 + 0.1;
               sz = vz p * 1.3;
               a = sx * sx + 2.25 * sz * sz + sy * sy - 1;
               val = a * a * a - sx * sx * sy * sy * sy - 0.1125 * sz * sz * sy * sy * sy
           in Inr (val \<le> 0))
      | Star \<Rightarrow>
          (let s = 0.6; limit = 1.2;
               val = \<bar>vx p\<bar> powr s + \<bar>vy p\<bar> powr s + \<bar>vz p\<bar> powr s
           in Inr (val \<le> limit))
      | Twist \<Rightarrow>
          (let twistAmount = 2.5;
               angle = vy p * twistAmount;
               ca = cos angle;
               sa = sin angle;
               tx = vx p * ca - vz p * sa;
               tz = vx p * sa + vz p * ca
           in Inr (\<bar>tx\<bar> < 0.4 \<and> \<bar>tz\<bar> < 0.4 \<and> \<bar>vy p\<bar> < 0.85))
      | Atom \<Rightarrow>
          (let R = 0.7; r = 0.12;
               d1 = sqrt (vx p * vx p + vy p * vy p) - R;
               t1 = d1 * d1 + vz p * vz p;
               d2 = sqrt (vy p * vy p + vz p * vz p) - R;
               t2 = d2 * d2 + vx p * vx p;
               d3 = sqrt (vx p * vx p + vz p * vz p) - R;
               t3 = d3 * d3 + vy p * vy p;
               inside = (t1 < r * r \<or> t2 < r * r \<or> t3 < r * r)
           in Inr (if length_v p < 0.25 then True else inside)))"

section \<open>The three.js operations the sampler relies on\<close>

text \<open>
  three.js is an external library. Its operations are written out here over the reals, after
  \<^verbatim>\<open>Quaternion.setFromEuler\<close> (order XYZ), \<^verbatim>\<open>Matrix4.compose\<close>, \<^verbatim>\<open>Matrix4.invert\<close>,
  \<^verbatim>\<open>Vector3.applyMatrix4\<close> and \<^verbatim>\<open>Vector3.normalize\<close>. A matrix is given by its sixteen
  entries \<open>n\<^sub>i\<^sub>j\<close> (row \<open>i\<close>, column \<open>j\<close>), in the argument order of \<^verbatim>\<open>Matrix4.set\<close>.
\<close>

datatype Quaternion = Quaternion (q_x: real) (q_y: real) (q_z: real) (q_w: real)

datatype Matrix4 = Matrix4
  (n11: real) (n12: real) (n13: real) (n14: real)
  (n21: real) (n22: real) (n23: real) (n24: real)
  (n31: real) (n32: real) (n33: real) (n34: real)
  (n41: real) (n42: real) (n43: real) (n44: real)

datatype Object3D = Object3D (obj_position: Vector3) (obj_quaternion: Quaternion) (obj_scale: Vector3)

definition setFromEuler :: "real \<times> real \<times> real \<Rightarrow> Quaternion" where
  "setFromEuler e =
     (case e of (ex, ey, ez) \<Rightarrow>
        let c1 = cos (ex / 2); c2 = cos (ey / 2); c3 = cos (ez / 2);
            s1 = sin (ex / 2); s2 = sin (ey / 2); s3 = sin (ez / 2)
        in Quaternion (s1 * c2 * c3 + c1 * s2 * s3)
                      (c1 * s2 * c3 - s1 * c2 * s3)
                      (c1 * c2 * s3 + s1 * s2 * c3)
                      (c1 * c2 * c3 - s1 * s2 * s3))"

definition compose :: "Vector3 \<Rightarrow> Quaternion \<Rightarrow> Vector3 \<Rightarrow> Matrix4" where
  "compose pos q scl =
     (let qx = q_x q; qy = q_y q; qz = q_z q; qw = q_w q;
          x2 = qx + qx; y2 = qy + qy; z2 = qz + qz;
          xx = qx * x2; xy = qx * y2; xz = qx * z2;
          yy = qy * y2; yz = qy * z2; zz = qz * z2;
          wx = qw * x2; wy = qw * y2; wz = qw * z2;
          sx = vx scl; sy = vy scl; sz = vz scl
      in Matrix4
           ((1 - (yy + zz)) * sx) ((xy - wz) * sy) ((xz + wy) * sz) (vx pos)
           ((xy + wz) * sx) ((1 - (xx + zz)) * sy) ((yz - wx) * sz) (vy pos)
           ((xz - wy) * sx) ((yz + wx) * sy) ((1 - (xx + yy)) * sz) (vz pos)
           0 0 0 1)"

definition updateMatrix :: "Object3D \<Rightarrow> Matrix4" where
  "updateMatrix obj = compose (obj_position obj) (obj_quaternion obj) (obj_scale obj)"

definition invert :: "Matrix4 \<Rightarrow> Matrix4" where
  "invert m =
     (let a11 = n11 m; a12 = n12 m; a13 = n13 m; a14 = n14 m;
          a21 = n21 m; a22 = n22 m; a23 = n23 m; a24 = n24 m;
          a31 = n31 m; a32 = n32 m; a33 = n33 m; a34 = n34 m;
          a41 = n41 m; a42 = n42 m; a43 = n43 m; a44 = n44 m;
          t11 = a23 * a34 * a42 - a24 * a33 * a42 + a24 * a32 * a43
                - a22 * a34 * a43 - a23 * a32 * a44 + a22 * a33 * a44;
          t12 = a14 * a33 * a42 - a13 * a34 * a42 - a14 * a32 * a43
                + a12 * a34 * a43 + a13 * a32 * a44 - a12 * a33 * a44;
          t13 = a13 * a24 * a42 - a14 * a23 * a42 + a14 * a22 * a43
                - a12 * a24 * a43 - a13 * a22 * a44 + a12 * a23 * a44;
          t14 = a14 * a23 * a32 - a13 * a24 * a32 - a14 * a22 * a33
                + a12 * a24 * a33 + a13 * a22 * a34 - a12 * a23 * a34;
          det = a11 * t11 + a21 * t12 + a31 * t13 + a41 * t14
      in if det = 0 then Matrix4 0 0 0 0 0 0 0 0 0 0 0 0 0 0 0 0
         else let detInv = 1 / det
              in Matrix4
                   (t11 * detInv)
                   (t12 * detInv)
                   (t13 * detInv)
                   (t14 * detInv)
                   ((a24 * a33 * a41 - a23 * a34 * a41 - a24 * a31 * a43
                     + a21 * a34 * a43 + a23 * a31 * a44 - a21 * a33 * a44) * detInv)
                   ((a13 * a34 * a41 - a14 * a33 * a41 + a14 * a31 * a43
                     - a11 * a34 * a43 - a13 * a31 * a44 + a11 * a33 * a44) * detInv)
                   ((a14 * a23 * a41 - a13 * a24 * a41 - a14 * a21 * a43
                     + a11 * a24 * a43 + a13 * a21 * a44 - a11 * a23 * a44) * detInv)
                   ((a13 * a24 * a31 - a14 * a23 * a31 + a14 * a21 * a33
                     - a11 * a24 * a33 - a13 * a21 * a34 + a11 * a23 * a34) * detInv)
                   ((a22 * a34 * a41 - a24 * a32 * a41 + a24 * a31 * a42
                     - a21 * a34 * a42 - a22 * a31 * a44 + a21 * a32 * a44) * detInv)
                   ((a14 * a32 * a41 - a12 * a34 * a41 - a14 * a31 * a42
                     + a11 * a34 * a42 + a12 * a31 * a44 - a11 * a32 * a44) * detInv)
                   ((a12 * a24 * a41 - a14 * a22 * a41 + a14 * a21 * a42
                     - a11 * a24 * a42 - a12 * a21 * a44 + a11 * a22 * a44) * detInv)
                   ((a14 * a22 * a31 - a12 * a24 * a31 - a14 * a21 * a32
                     + a11 * a24 * a32 + a12 * a21 * a34 - a11 * a22 * a34) * detInv)
                   ((a23 * a32 * a41 - a22 * a33 * a41 - a23 * a31 * a42
                     + a21 * a33 * a42 + a22 * a31 * a43 - a21 * a32 * a43) * detInv)
                   ((a12 * a33 * a41 - a13 * a32 * a41 + a13 * a31 * a42
                     - a11 * a33 * a42 - a12 * a31 * a43 + a11 * a32 * a43) * detInv)
                   ((a13 * a22 * a41 - a12 * a23 * a41 - a13 * a21 * a42
                     + a11 * a23 * a42 + a12 * a21 * a43 - a11 * a22 * a43) * detInv)
                   ((a12 * a23 * a31 - a13 * a22 * a31 + a13 * a21 * a32
                     - a11 * a23 * a32 - a12 * a21 * a33 + a11 * a22 * a33) * detInv))"

definition applyMatrix4 :: "Vector3 \<Rightarrow> Matrix4 \<Rightarrow> Vector3" where
  "applyMatrix4 v m =
     (let x = vx v; y = vy v; z = vz v;
          w = 1 / (n41 m * x + n42 m * y + n43 m * z + n44 m)
      in Vector3 ((n11 m * x + n12 m * y + n13 m * z + n14 m) * w)
                 ((n21 m * x + n22 m * y + n23 m * z + n24 m) * w)
                 ((n31 m * x + n32 m * y + n33 m * z + n34 m) * w))"

text \<open>\<^verbatim>\<open>normalize()\<close> is \<^verbatim>\<open>divideScalar(this.length() || 1)\<close>, a multiplication by \<^verbatim>\<open>1 / s\<close>.\<close>

definition normalize_v :: "Vector3 \<Rightarrow> Vector3" where
  "normalize_v v =
     (let l = length_v v;
          s = (if l = 0 then 1 else l)
      in Vector3 (vx v * (1 / s)) (vy v * (1 / s)) (vz v * (1 / s)))"

text \<open>
  A colour is kept as the three arguments \<^verbatim>\<open>Color.setHSL\<close> received; the conversion to
  red, green and blue inside three.js is a fixed function of them.
\<close>

datatype Color = ColorHSL (hue: real) (saturation: real) (lightness: real)

section \<open>Parameters, pieces and the scene state\<close>

record ShapeDesignElement =
  id_el :: string
  type :: ShapeType
  position_el :: "real \<times> real \<times> real"
  rotation :: "real \<times> real \<times> real"
  scale :: real
  enabled :: bool

record PuzzleParams =
  mode :: PuzzleMode
  elements :: "ShapeDesignElement list"
  shape :: ShapeType
  resolution :: nat
  explode :: real
  noise :: real
  speed :: real
  autoRotate :: bool
  isScrambled :: bool
  audioEnabled :: bool

text \<open>One entry of \<^verbatim>\<open>sceneData.current.pieceData\<close>.\<close>

record Piece =
  position :: Vector3
  outward :: Vector3
  randomDir :: Vector3
  randPhase :: real
  randAmp :: real
  picked :: bool
  baseColor :: Color

text \<open>
  The \<^verbatim>\<open>THREE.InstancedMesh\<close> of a build: the edge of its cube geometry, its instance count
  and the per-instance matrices and colours written by \<^verbatim>\<open>setMatrixAt\<close> and \<^verbatim>\<open>setColorAt\<close>.
\<close>

record InstancedMesh =
  geometry :: real
  count :: nat
  instanceMatrix :: "Matrix4 list"
  instanceColor :: "Color list"

text \<open>
  The part of \<^verbatim>\<open>sceneData.current\<close> that rebuild and export read and write. Renderer,
  camera, lights and the scene graph are not modelled; \<^verbatim>\<open>puzzleGroup\<close> holds exactly the
  mesh of \<^verbatim>\<open>puzzleMesh\<close>.
\<close>

record SceneData =
  pieceData :: "Piece list"
  hoveredId :: int
  puzzleMesh :: "InstancedMesh option"
  dummy :: Object3D

text \<open>\<^verbatim>\<open>physicsState.current\<close>.\<close>

record PhysicsState =
  currentExplode :: real
  currentNoise :: real
  targetExplode :: real
  targetNoise :: real

text \<open>
  \<^verbatim>\<open>Math.random()\<close>: the generator is the sequence of values it is going to return; a
  call returns the first and leaves the rest.
\<close>

type_synonym rng = "nat \<Rightarrow> real"

definition Math_random :: "rng \<Rightarrow> real \<times> rng" where
  "Math_random g = (g 0, \<lambda>n. g (Suc n))"

section \<open>The composition sampler: \<^verbatim>\<open>rebuildPuzzle\<close>\<close>

text \<open>Grid setup: \<^verbatim>\<open>size = 2.0\<close>, \<^verbatim>\<open>half = size / 2\<close>, \<^verbatim>\<open>step = size / resolution\<close>.\<close>

definition size_grid :: real where
  "size_grid = 2.0"

definition half :: real where
  "half = size_grid / 2"

definition step :: "nat \<Rightarrow> real" where
  "step res = size_grid / real res"

text \<open>The coordinates \<^verbatim>\<open>-half + (i + 0.5) * step\<close> for \<^verbatim>\<open>i = 0, ..., resolution - 1\<close>.\<close>

definition cellCenters :: "nat \<Rightarrow> real list" where
  "cellCenters res = map (\<lambda>i. - half + (real i + 0.5) * step res) [0..<res]"

text \<open>The three nested loops over \<^verbatim>\<open>ix\<close>, \<^verbatim>\<open>iy\<close>, \<^verbatim>\<open>iz\<close>, in their order of visit.\<close>

definition gridPoints :: "nat \<Rightarrow> Vector3 list" where
  "gridPoints res =
     concat (map (\<lambda>x. concat (map (\<lambda>y. map (\<lambda>z. Vector3 x y z) (cellCenters res))
                                   (cellCenters res)))
                 (cellCenters res))"

text \<open>
  \<^verbatim>\<open>designElements\<close>: in Designer mode every element with the inverse of its placement
  matrix, otherwise the empty list.
\<close>

definition elementMatrix :: "ShapeDesignElement \<Rightarrow> Matrix4" where
  "elementMatrix el =
     (case position_el el of (px, py, pz) \<Rightarrow>
        let obj = Object3D (Vector3 px py pz) (setFromEuler (rotation el))
                    (Vector3 (scale el) (scale el) (scale el))
        in invert (updateMatrix obj))"

definition designElements :: "PuzzleParams \<Rightarrow> (ShapeDesignElement \<times> Matrix4) list" where
  "designElements pParams =
     (if mode pParams = DESIGNER
      then map (\<lambda>el. (el, elementMatrix el)) (elements pParams)
      else [])"

text \<open>The loop \<^verbatim>\<open>for (const el of designElements)\<close> with its \<^verbatim>\<open>continue\<close> and \<^verbatim>\<open>break\<close>.\<close>

fun unionOfElements :: "(ShapeDesignElement \<times> Matrix4) list \<Rightarrow> Vector3 \<Rightarrow> bool" where
  "unionOfElements [] p = False"
| "unionOfElements ((el, invMatrix) # rest) p =
     (if \<not> enabled el then unionOfElements rest p
      else let pLocal = applyMatrix4 p invMatrix
           in if isPointInShape (type el) pLocal 0.9 = Inr True then True
              else unionOfElements rest p)"

definition pointInside :: "PuzzleParams \<Rightarrow> Vector3 \<Rightarrow> bool" where
  "pointInside pParams p =
     (if mode pParams = SINGLE then isPointInShape (shape pParams) p 0.9 = Inr True
      else unionOfElements (designElements pParams) p)"

definition survivingPositions :: "PuzzleParams \<Rightarrow> Vector3 list" where
  "survivingPositions pParams = filter (pointInside pParams) (gridPoints (resolution pParams))"

text \<open>\<^verbatim>\<open>maxDist\<close>: the \<^verbatim>\<open>forEach\<close> over the positions, starting from 0.\<close>

definition maxDistOf :: "Vector3 list \<Rightarrow> real" where
  "maxDistOf positions =
     foldl (\<lambda>maxDist pos. if length_v pos > maxDist then length_v pos else maxDist) 0 positions"

text \<open>
  The loop \<^verbatim>\<open>for (let i = 0; i < count; i++)\<close> that fills \<^verbatim>\<open>pieceData\<close>. The five calls of
  \<^verbatim>\<open>Math.random()\<close> are made in the order of the source: three for \<^verbatim>\<open>randomDir\<close>, then
  \<^verbatim>\<open>randPhase\<close>, then \<^verbatim>\<open>randAmp\<close>.
\<close>

fun buildPieces :: "Vector3 list \<Rightarrow> real \<Rightarrow> rng \<Rightarrow> Piece list \<times> rng" where
  "buildPieces [] maxDist g = ([], g)"
| "buildPieces (pos # rest) maxDist g =
     (let normalized = normalize_v pos;
          outw = (if lengthSq normalized < 0.000001 then Vector3 0 1 0 else normalized);
          (r1, g1) = Math_random g;
          (r2, g2) = Math_random g1;
          (r3, g3) = Math_random g2;
          rdir = normalize_v (Vector3 (r1 * 2 - 1) (r2 * 2 - 1) (r3 * 2 - 1));
          t = (if maxDist > 0 then length_v pos / maxDist else 0);
          color = ColorHSL (0.58 + 0.12 * t) 0.7 (0.5 + 0.12 * t);
          (r4, g4) = Math_random g3;
          (r5, g5) = Math_random g4;
          piece = \<lparr> position = pos, outward = outw, randomDir = rdir,
                    randPhase = r4 * pi * 2, randAmp = 0.5 + r5 * 0.7,
                    picked = False, baseColor = color \<rparr>;
          (pieces, g') = buildPieces rest maxDist g5
      in (piece # pieces, g'))"

text \<open>
  \<^verbatim>\<open>rebuildPuzzle\<close>: the new scene data and the generator after the build. The instance
  matrix of a piece is the matrix of \<^verbatim>\<open>dummy\<close> after its position was set to the piece and
  its scale to 1; the rotation of \<^verbatim>\<open>dummy\<close> is whatever the scene holds.
\<close>

definition rebuildPuzzle :: "PuzzleParams \<Rightarrow> rng \<Rightarrow> SceneData \<Rightarrow> SceneData \<times> rng" where
  "rebuildPuzzle pParams g sd =
     (let positions = survivingPositions pParams;
          cnt = length positions;
          edge = step (resolution pParams) * 0.92;
          maxDist = maxDistOf positions;
          (pieces, g') = buildPieces positions maxDist g;
          dummyAt = (\<lambda>pos. Object3D pos (obj_quaternion (dummy sd)) (Vector3 1 1 1));
          mesh = \<lparr> geometry = edge, count = cnt,
                   instanceMatrix = map (\<lambda>pos. updateMatrix (dummyAt pos)) positions,
                   instanceColor = map baseColor pieces \<rparr>
      in (sd \<lparr> pieceData := pieces,
               puzzleMesh := Some mesh,
               dummy := (if positions = [] then dummy sd else dummyAt (last positions)) \<rparr>,
          g'))"

definition pieceCount :: "SceneData \<Rightarrow> nat" where
  "pieceCount sd = length (pieceData sd)"

section \<open>The exporter: \<^verbatim>\<open>exportSTL\<close>\<close>

text \<open>
  A geometry of the export is the base cube (given by its edge) with an instance matrix
  applied; \<^verbatim>\<open>getMatrixAt\<close> beyond the instances of the mesh reads no matrix. The one
  effect of an export is the download of the file \<^verbatim>\<open>puzzle-lab-design.stl\<close>, whose content
  is the serialisation of the merged geometries.
\<close>

datatype BakedGeometry = BakedGeometry real "Matrix4 option"

datatype Effect = Download string "BakedGeometry list"

definition getMatrixAt :: "InstancedMesh \<Rightarrow> nat \<Rightarrow> Matrix4 option" where
  "getMatrixAt mesh i =
     (if i < length (instanceMatrix mesh) then Some (instanceMatrix mesh ! i) else None)"

definition exportSTL :: "SceneData option \<Rightarrow> SceneData option \<times> Effect list" where
  "exportSTL current =
     (case current of
        None \<Rightarrow> (current, [])
      | Some sd \<Rightarrow>
          (case puzzleMesh sd of
             None \<Rightarrow> (current, [])
           | Some mesh \<Rightarrow>
               let baseGeo = geometry mesh;
                   geometries = map (\<lambda>i. BakedGeometry baseGeo (getMatrixAt mesh i))
                                    [0..<length (pieceData sd)]
               in if length geometries = 0 then (current, [])
                  else (current, [Download ''puzzle-lab-design.stl'' geometries])))"

section \<open>The animator's smoothing step\<close>

text \<open>
  The effect \<^verbatim>\<open>useEffect(..., [params])\<close> stores the new targets; the block
  ``Physics and Animation'' of \<^verbatim>\<open>animate\<close> moves the current values. Its inputs are
  \<^verbatim>\<open>pState.audioEnabled\<close> and the \<^verbatim>\<open>audioLevel\<close> of the tick; nothing else in \<^verbatim>\<open>animate\<close>
  reads or writes \<^verbatim>\<open>physicsState\<close>.
\<close>

definition onParamsChange :: "PuzzleParams \<Rightarrow> PhysicsState \<Rightarrow> PhysicsState" where
  "onParamsChange params ps = ps \<lparr> targetExplode := explode params, targetNoise := noise params \<rparr>"

text \<open>The per-tick local copies \<^verbatim>\<open>targetExplode\<close> and \<^verbatim>\<open>targetNoise\<close> after the audio boost.\<close>

definition boostedExplode :: "bool \<Rightarrow> real \<Rightarrow> PhysicsState \<Rightarrow> real" where
  "boostedExplode audioOn audioLevel ps =
     (if audioOn \<and> audioLevel > 0 then min (targetExplode ps + audioLevel * 0.9) 1.5
      else targetExplode ps)"

definition boostedNoise :: "bool \<Rightarrow> real \<Rightarrow> PhysicsState \<Rightarrow> real" where
  "boostedNoise audioOn audioLevel ps =
     (if audioOn \<and> audioLevel > 0 then min (targetNoise ps + audioLevel * 0.8) 1.0
      else targetNoise ps)"

definition animate :: "bool \<Rightarrow> real \<Rightarrow> PhysicsState \<Rightarrow> PhysicsState" where
  "animate audioOn audioLevel ps =
     (let tExplode = boostedExplode audioOn audioLevel ps;
          tNoise = boostedNoise audioOn audioLevel ps;
          lerp = 0.08;
          ps1 = ps \<lparr> currentExplode := currentExplode ps + (tExplode - currentExplode ps) * lerp \<rparr>
      in ps1 \<lparr> currentNoise := currentNoise ps1 + (tNoise - currentNoise ps1) * lerp \<rparr>)"

section \<open>Initial values and notions of the specification\<close>

text \<open>
  The initial parameters of \<^verbatim>\<open>App\<close> with its default element, and the scene data the
  mounting effect stores before the first rebuild (\<^verbatim>\<open>new THREE.Object3D()\<close> sits at the
  origin, unrotated, with scale 1).
\<close>

definition defaultElement :: ShapeDesignElement where
  "defaultElement =
     \<lparr> id_el = ''1'', type = Sphere, position_el = (0, 0, 0), rotation = (0, 0, 0),
       scale = 1, enabled = True \<rparr>"

definition initialParams :: PuzzleParams where
  "initialParams =
     \<lparr> mode = SINGLE, elements = [defaultElement], shape = Sphere, resolution = 22,
       explode = 0.0, noise = 0.4, speed = 1.0, autoRotate = True, isScrambled = False,
       audioEnabled = False \<rparr>"

definition initialSceneData :: SceneData where
  "initialSceneData =
     \<lparr> pieceData = [], hoveredId = - 1, puzzleMesh = None,
       dummy = Object3D (Vector3 0 0 0) (Quaternion 0 0 0 1) (Vector3 1 1 1) \<rparr>"


text \<open>
  An element contains a grid point when the point, taken into the element's local frame
  by the inverse placement matrix, passes the element's membership test.
\<close>

definition elementContains :: "ShapeDesignElement \<Rightarrow> Vector3 \<Rightarrow> bool" where
  "elementContains el p =
     (isPointInShape (type el) (applyMatrix4 p (elementMatrix el)) 0.9 = Inr True)"

text \<open>The Hamilton product and the sum of quaternions, components in the order w, x, y, z.\<close>

fun quat_mul :: "quat \<Rightarrow> quat \<Rightarrow> quat" where
  "quat_mul (aw, ax, ay, az) (bw, bx, by, bz) =
     (aw * bw - ax * bx - ay * by - az * bz,
      aw * bx + ax * bw + ay * bz - az * by,
      aw * by - ax * bz + ay * bw + az * bx,
      aw * bz + ax * by - ay * bx + az * bw)"

fun quat_add :: "quat \<Rightarrow> quat \<Rightarrow> quat" where
  "quat_add (aw, ax, ay, az) (bw, bx, by, bz) = (aw + bw, ax + bx, ay + by, az + bz)"

text \<open>
  The Julia test in the words of the specification: the iteration starts from the
  quaternion whose w-component is 0 and whose x, y, z are those of \<open>p\<close> times 1.5; the
  point is inside when its norm is at most 1.2 and the squared norm of the orbit stays at
  most 4 during the seven iterations.
\<close>

definition julia_spec :: "Vector3 \<Rightarrow> bool" where
  "julia_spec p =
     (length_v p \<le> 1.2 \<and>
      list_all (\<lambda>k. quat_normSq ((julia_step ^^ k) (0, vx p * 1.5, vy p * 1.5, vz p * 1.5)) \<le> 4)
        [0..<7])"

section \<open>Facts about the build loop and the grid\<close>

lemma buildPieces_positions: "map position (fst (buildPieces ps m g)) = ps"
proof (induction ps arbitrary: g)
  case Nil
  show ?case by simp
next
  case (Cons pos rest)
  show ?case
    using Cons.IH by (auto simp: Let_def split: prod.splits) (metis fst_conv)
qed

lemma buildPieces_length: "length (fst (buildPieces ps m g)) = length ps"
  using buildPieces_positions [of ps m g] by (metis length_map)

lemma pieceData_rebuildPuzzle:
  "pieceData (fst (rebuildPuzzle pParams g sd)) =
     fst (buildPieces (survivingPositions pParams) (maxDistOf (survivingPositions pParams)) g)"
  by (simp add: rebuildPuzzle_def Let_def split: prod.splits)

lemma rebuild_positions:
  "map position (pieceData (fst (rebuildPuzzle pParams g sd))) = survivingPositions pParams"
  by (simp add: pieceData_rebuildPuzzle buildPieces_positions)

lemma pieceCount_rebuildPuzzle:
  "pieceCount (fst (rebuildPuzzle pParams g sd)) = length (survivingPositions pParams)"
  by (simp add: pieceCount_def pieceData_rebuildPuzzle buildPieces_length)

text \<open>Counting the cells kept by a test that is a conjunction of one test per axis.\<close>

lemma length_filter_row:
  "length (filter (\<lambda>v. A (vx v) \<and> B (vy v) \<and> C (vz v)) (map (\<lambda>c. Vector3 a b c) zs)) =
     (if A a \<and> B b then length (filter C zs) else 0)"
  by (induction zs) (auto simp: comp_def)

lemma length_filter_plane:
  "length (filter (\<lambda>v. A (vx v) \<and> B (vy v) \<and> C (vz v))
             (concat (map (\<lambda>b. map (\<lambda>c. Vector3 a b c) zs) ys))) =
     (if A a then length (filter B ys) * length (filter C zs) else 0)"
  by (induction ys) (auto simp: comp_def)

lemma length_filter_cube:
  "length (filter (\<lambda>v. A (vx v) \<and> B (vy v) \<and> C (vz v))
             (concat (map (\<lambda>a. concat (map (\<lambda>b. map (\<lambda>c. Vector3 a b c) zs) ys)) xs))) =
     length (filter A xs) * length (filter B ys) * length (filter C zs)"
  by (induction xs) (simp_all add: length_filter_plane algebra_simps)

lemma cellCenters_10:
  "cellCenters 10 = [- 0.9, - 0.7, - 0.5, - 0.3, - 0.1, 0.1, 0.3, 0.5, 0.7, 0.9]"
  by (simp add: cellCenters_def half_def step_def size_grid_def upt_rec)

lemma box_axis_count: "length (filter (\<lambda>c::real. \<bar>c\<bar> \<le> 0.72) (cellCenters 10)) = 8"
  by (simp add: cellCenters_10)

lemma box_inside:
  "(isPointInShape Box p 0.9 = Inr True) = (\<bar>vx p\<bar> \<le> 0.72 \<and> \<bar>vy p\<bar> \<le> 0.72 \<and> \<bar>vz p\<bar> \<le> 0.72)"
  by (simp add: isPointInShape_def Let_def)

section \<open>The regression fixture of the Box\<close>

text \<open>
  C1. A rebuild with resolution 10, mode Single and shape Box keeps as many pieces as there
  are cell centres of the grid of step 0.2 over the cube from -1 to 1 whose largest absolute
  coordinate is at most 0.72, and that number is 512: the centres are -0.9, -0.7, ..., 0.9
  on each axis and eight of the ten pass the test.
\<close>

theorem box_resolution_10_piece_count:
  "pieceCount (fst (rebuildPuzzle (pParams \<lparr> mode := SINGLE, shape := Box, resolution := 10 \<rparr>) g sd)) =
     length (filter (\<lambda>c. max \<bar>vx c\<bar> (max \<bar>vy c\<bar> \<bar>vz c\<bar>) \<le> 0.72) (gridPoints 10))
   \<and> pieceCount (fst (rebuildPuzzle (pParams \<lparr> mode := SINGLE, shape := Box, resolution := 10 \<rparr>) g sd)) = 512
   \<and> cellCenters 10 = [- 0.9, - 0.7, - 0.5, - 0.3, - 0.1, 0.1, 0.3, 0.5, 0.7, 0.9]
   \<and> step 10 = 0.2"
proof -
  let ?P = "pParams \<lparr> mode := SINGLE, shape := Box, resolution := 10 \<rparr>"
  have "pointInside ?P = (\<lambda>v. \<bar>vx v\<bar> \<le> 0.72 \<and> \<bar>vy v\<bar> \<le> 0.72 \<and> \<bar>vz v\<bar> \<le> 0.72)"
    by (rule ext) (simp add: pointInside_def box_inside)
  then have sp: "survivingPositions ?P =
      filter (\<lambda>v. \<bar>vx v\<bar> \<le> 0.72 \<and> \<bar>vy v\<bar> \<le> 0.72 \<and> \<bar>vz v\<bar> \<le> 0.72) (gridPoints 10)"
    by (simp add: survivingPositions_def)
  have mx: "(\<lambda>c. max \<bar>vx c\<bar> (max \<bar>vy c\<bar> \<bar>vz c\<bar>) \<le> 0.72) =
      (\<lambda>v. \<bar>vx v\<bar> \<le> 0.72 \<and> \<bar>vy v\<bar> \<le> 0.72 \<and> \<bar>vz v\<bar> \<le> 0.72)"
    by (rule ext) (simp only: max.bounded_iff)
  have "length (filter (\<lambda>v. \<bar>vx v\<bar> \<le> 0.72 \<and> \<bar>vy v\<bar> \<le> 0.72 \<and> \<bar>vz v\<bar> \<le> 0.72) (gridPoints 10))
          = 8 * 8 * 8"
    unfolding gridPoints_def
    by (rule length_filter_cube [of "\<lambda>c. \<bar>c\<bar> \<le> 0.72" "\<lambda>c. \<bar>c\<bar> \<le> 0.72" "\<lambda>c. \<bar>c\<bar> \<le> 0.72"
          "cellCenters 10" "cellCenters 10" "cellCenters 10", unfolded box_axis_count])
  then have cnt: "length (filter (\<lambda>v. \<bar>vx v\<bar> \<le> 0.72 \<and> \<bar>vy v\<bar> \<le> 0.72 \<and> \<bar>vz v\<bar> \<le> 0.72) (gridPoints 10)) = 512"
    by simp
  have st: "step 10 = 0.2"
    by (simp add: step_def size_grid_def)
  show ?thesis
    unfolding pieceCount_rebuildPuzzle sp mx cnt cellCenters_10 st by simp
qed

section \<open>Designer mode is the union of the enabled elements\<close>

lemma unionOfElements_iff:
  "unionOfElements des p =
     (\<exists>d \<in> set des. enabled (fst d) \<and> isPointInShape (type (fst d)) (applyMatrix4 p (snd d)) 0.9 = Inr True)"
  by (induction des p rule: unionOfElements.induct) (auto simp: Let_def)

lemma pointInside_designer:
  "mode pParams = DESIGNER \<Longrightarrow>
     pointInside pParams p = (\<exists>el \<in> set (elements pParams). enabled el \<and> elementContains el p)"
  by (auto simp: pointInside_def designElements_def unionOfElements_iff elementContains_def)

lemma elementMatrix_identity:
  "position_el el = (0, 0, 0) \<Longrightarrow> rotation el = (0, 0, 0) \<Longrightarrow> scale el = 1 \<Longrightarrow>
     elementMatrix el = Matrix4 1 0 0 0 0 1 0 0 0 0 1 0 0 0 0 1"
  by (simp add: elementMatrix_def invert_def updateMatrix_def compose_def setFromEuler_def Let_def)

lemma applyMatrix4_identity: "applyMatrix4 p (Matrix4 1 0 0 0 0 1 0 0 0 0 1 0 0 0 0 1) = p"
  by (cases p) (simp add: applyMatrix4_def)

lemma cellCenters_2: "cellCenters 2 = [- 0.5, 0.5]"
  by (simp add: cellCenters_def half_def step_def size_grid_def upt_rec)

text \<open>
  C2. In Designer mode, for every cell centre \<open>p\<close> of the grid: if some enabled element
  contains \<open>p\<close> in its local frame then \<open>p\<close> is among the positions of the pieces, and if
  every element that contains \<open>p\<close> is disabled then it is not. Disabled elements never
  contribute: removing them from the element list leaves the positions unchanged.
\<close>

theorem designer_union_of_enabled_elements:
  assumes "mode pParams = DESIGNER" and "p \<in> set (gridPoints (resolution pParams))"
  shows "((\<exists>el \<in> set (elements pParams). enabled el \<and> elementContains el p) \<longrightarrow>
            p \<in> set (map position (pieceData (fst (rebuildPuzzle pParams g sd)))))
       \<and> ((\<forall>el \<in> set (elements pParams). elementContains el p \<longrightarrow> \<not> enabled el) \<longrightarrow>
            p \<notin> set (map position (pieceData (fst (rebuildPuzzle pParams g sd)))))
       \<and> map position (pieceData (fst (rebuildPuzzle
             (pParams \<lparr> elements := filter enabled (elements pParams) \<rparr>) g sd))) =
           map position (pieceData (fst (rebuildPuzzle pParams g sd)))"
proof -
  have mem: "p \<in> set (survivingPositions pParams) \<longleftrightarrow>
      (\<exists>el \<in> set (elements pParams). enabled el \<and> elementContains el p)"
    using assms by (simp add: survivingPositions_def pointInside_designer)
  have "pointInside (pParams \<lparr> elements := filter enabled (elements pParams) \<rparr>) = pointInside pParams"
    using assms(1) by (intro ext) (auto simp: pointInside_designer)
  then have "survivingPositions (pParams \<lparr> elements := filter enabled (elements pParams) \<rparr>) =
      survivingPositions pParams"
    by (simp add: survivingPositions_def)
  with mem show ?thesis
    unfolding rebuild_positions by blast
qed

text \<open>
  The theorem at a concrete build: one enabled Box element placed at the origin, resolution 2,
  and the cell centre (-0.5, 0.5, -0.5).
\<close>

theorem designer_union_witness:
  "mode (initialParams \<lparr> mode := DESIGNER, elements := [defaultElement \<lparr> type := Box \<rparr>], resolution := 2 \<rparr>) = DESIGNER
   \<and> Vector3 (- 0.5) 0.5 (- 0.5) \<in> set (gridPoints 2)
   \<and> enabled (defaultElement \<lparr> type := Box \<rparr>)
   \<and> elementContains (defaultElement \<lparr> type := Box \<rparr>) (Vector3 (- 0.5) 0.5 (- 0.5))
   \<and> Vector3 (- 0.5) 0.5 (- 0.5) \<in> set (map position (pieceData (fst (rebuildPuzzle
         (initialParams \<lparr> mode := DESIGNER, elements := [defaultElement \<lparr> type := Box \<rparr>], resolution := 2 \<rparr>)
         (\<lambda>n. 0) initialSceneData))))"
proof -
  let ?el = "defaultElement \<lparr> type := Box \<rparr>"
  let ?P = "initialParams \<lparr> mode := DESIGNER, elements := [?el], resolution := 2 \<rparr>"
  let ?p = "Vector3 (- 0.5) 0.5 (- 0.5)"
  have m: "mode ?P = DESIGNER" by simp
  have g: "?p \<in> set (gridPoints (resolution ?P))"
    by (simp add: gridPoints_def cellCenters_2)
  have en: "enabled ?el" by (simp add: defaultElement_def)
  have c: "elementContains ?el ?p"
    by (simp add: elementContains_def elementMatrix_identity applyMatrix4_identity
        defaultElement_def box_inside)
  have ex: "\<exists>el \<in> set (elements ?P). enabled el \<and> elementContains el ?p"
    using en c by simp
  from designer_union_of_enabled_elements [OF m g, of "\<lambda>n. 0" initialSceneData] ex
  have "?p \<in> set (map position (pieceData (fst (rebuildPuzzle ?P (\<lambda>n. 0) initialSceneData))))"
    by blast
  with m g en c show ?thesis by simp
qed

section \<open>The identity placement does not alter membership\<close>

text \<open>
  C3. A Designer rebuild whose element list is one enabled Sphere element at position
  (0, 0, 0) with rotation (0, 0, 0) and scale 1, at resolution 10, keeps the same cell
  centres, in the same order, and so has the same piece count, as the Single rebuild with
  shape Sphere at resolution 10: the inverse placement matrix of that element maps every
  point to itself.
\<close>

theorem designer_identity_sphere_equals_single:
  "map position (pieceData (fst (rebuildPuzzle
       (pParams \<lparr> mode := DESIGNER, resolution := 10,
                  elements := [\<lparr> id_el = i, type = Sphere, position_el = (0, 0, 0),
                                 rotation = (0, 0, 0), scale = 1, enabled = True \<rparr>] \<rparr>) g1 sd1))) =
   map position (pieceData (fst (rebuildPuzzle
       (pParams \<lparr> mode := SINGLE, shape := Sphere, resolution := 10 \<rparr>) g2 sd2)))
   \<and> pieceCount (fst (rebuildPuzzle
       (pParams \<lparr> mode := DESIGNER, resolution := 10,
                  elements := [\<lparr> id_el = i, type = Sphere, position_el = (0, 0, 0),
                                 rotation = (0, 0, 0), scale = 1, enabled = True \<rparr>] \<rparr>) g1 sd1)) =
     pieceCount (fst (rebuildPuzzle
       (pParams \<lparr> mode := SINGLE, shape := Sphere, resolution := 10 \<rparr>) g2 sd2))
   \<and> applyMatrix4 p (elementMatrix \<lparr> id_el = i, type = Sphere, position_el = (0, 0, 0),
                                 rotation = (0, 0, 0), scale = 1, enabled = True \<rparr>) = p"
proof -
  let ?el = "\<lparr> id_el = i, type = Sphere, position_el = (0, 0, 0),
                rotation = (0, 0, 0), scale = 1, enabled = True \<rparr>"
  let ?D = "pParams \<lparr> mode := DESIGNER, resolution := 10, elements := [?el] \<rparr>"
  let ?S = "pParams \<lparr> mode := SINGLE, shape := Sphere, resolution := 10 \<rparr>"
  have idm: "applyMatrix4 q (elementMatrix ?el) = q" for q
    by (simp add: elementMatrix_identity applyMatrix4_identity)
  have "pointInside ?D = pointInside ?S"
    by (rule ext) (simp add: pointInside_def designElements_def idm)
  then have "survivingPositions ?D = survivingPositions ?S"
    by (simp add: survivingPositions_def)
  then show ?thesis
    by (simp add: rebuild_positions pieceCount_rebuildPuzzle idm)
qed

section \<open>Determinism of a rebuild up to the jitter\<close>

lemma buildPieces_jitter_only:
  "map (\<lambda>pc. pc \<lparr> randomDir := d, randPhase := a, randAmp := b \<rparr>) (fst (buildPieces ps m g1)) =
   map (\<lambda>pc. pc \<lparr> randomDir := d, randPhase := a, randAmp := b \<rparr>) (fst (buildPieces ps m g2))"
proof (induction ps arbitrary: g1 g2)
  case Nil
  show ?case by simp
next
  case (Cons pos rest)
  show ?case
    using Cons.IH by (auto simp: Let_def split: prod.splits) (metis fst_conv)
qed

lemma buildPieces_baseColor:
  "map baseColor (fst (buildPieces ps m g)) =
     map (\<lambda>pos. ColorHSL (0.58 + 0.12 * (if m > 0 then length_v pos / m else 0)) 0.7
                       (0.5 + 0.12 * (if m > 0 then length_v pos / m else 0))) ps"
proof (induction ps arbitrary: g)
  case Nil
  show ?case by simp
next
  case (Cons pos rest)
  have "map baseColor (fst (buildPieces rest m g')) =
     map (\<lambda>pos. ColorHSL (0.58 + 0.12 * (if m > 0 then length_v pos / m else 0)) 0.7
                       (0.5 + 0.12 * (if m > 0 then length_v pos / m else 0))) rest" for g'
    by (rule Cons.IH)
  then show ?case
    by (simp add: Let_def split_beta)
qed

text \<open>
  C5. Two rebuilds with the same parameters, run with any two random generators (and from
  any two scene states), yield the same sequence of piece positions and the same base colour
  for each piece; the pieces agree in every field other than the three random ones
  \<^verbatim>\<open>randomDir\<close>, \<^verbatim>\<open>randPhase\<close> and \<^verbatim>\<open>randAmp\<close>.
\<close>

theorem rebuild_deterministic_up_to_jitter:
  "map position (pieceData (fst (rebuildPuzzle pParams g1 sd1))) =
     map position (pieceData (fst (rebuildPuzzle pParams g2 sd2)))
   \<and> map baseColor (pieceData (fst (rebuildPuzzle pParams g1 sd1))) =
     map baseColor (pieceData (fst (rebuildPuzzle pParams g2 sd2)))
   \<and> map (\<lambda>pc. pc \<lparr> randomDir := d, randPhase := a, randAmp := b \<rparr>)
         (pieceData (fst (rebuildPuzzle pParams g1 sd1))) =
     map (\<lambda>pc. pc \<lparr> randomDir := d, randPhase := a, randAmp := b \<rparr>)
         (pieceData (fst (rebuildPuzzle pParams g2 sd2)))"
  unfolding pieceData_rebuildPuzzle
  using buildPieces_jitter_only
  by (simp add: buildPieces_positions buildPieces_baseColor)

section \<open>The evaluator never divides below its guard\<close>

lemma mandelbulb_loop_no_fault: "\<exists>b. mandelbulb_loop k p zv = Inr b"
  by (induction k arbitrary: zv) (auto simp: Let_def guarded_div_def)

text \<open>
  C7. \<^verbatim>\<open>isPointInShape\<close> returns a boolean for every shape kind, every point and every
  radius: its loops run at most 6 and 7 times, and the checked division of the Mandelbulb
  branch never reports a fault, that is, \<^verbatim>\<open>zz/r\<close> (and with it \<^verbatim>\<open>acos(zz/r)\<close>) is only
  evaluated with \<^verbatim>\<open>r >= 0.0001\<close>, because the loop has left before when \<^verbatim>\<open>r < 0.0001\<close>. In
  particular there is no division by zero.
\<close>

theorem isPointInShape_total_no_division_below_guard:
  "\<exists>b. isPointInShape kind p radius = Inr b"
  by (cases kind) (auto simp: isPointInShape_def Let_def mandelbulb_loop_no_fault)

section \<open>The Julia membership test\<close>

lemma julia_loop_orbit:
  "julia_loop n q = (\<forall>k<n. quat_normSq ((julia_step ^^ k) q) \<le> 4)"
proof (induction n arbitrary: q)
  case 0
  show ?case by simp
next
  case (Suc n)
  show ?case
    by (simp add: Suc.IH All_less_Suc2 funpow_swap1 not_less del: funpow.simps)
       (auto simp: funpow_swap1)
qed

lemma julia_loop_list_all:
  "julia_loop n q = list_all (\<lambda>k. quat_normSq ((julia_step ^^ k) q) \<le> 4) [0..<n]"
  by (auto simp: julia_loop_orbit list_all_iff)

lemma julia_step_square_plus_c: "julia_step q = quat_add (quat_mul q q) julia_c"
  by (cases q) (simp add: julia_c_def Let_def algebra_simps)

lemma length_v_half: "length_v (Vector3 (1 / 2) 0 0) = 1 / 2"
  by (simp add: length_v_def real_sqrt_divide)

text \<open>
  C4, as the specification words it, fails: at \<open>p = (1/2, 0, 0)\<close> the code answers outside
  (its orbit starts at \<^verbatim>\<open>qw = 0.75\<close> and leaves the ball of squared norm 4 at the sixth
  check), while the iteration started from the quaternion with w-component 0 and vector part
  \<open>1.5 p\<close> stays bounded.
\<close>

theorem julia_w_component_counterexample:
  "isPointInShape Julia (Vector3 (1 / 2) 0 0) 0.9 = Inr False \<and> julia_spec (Vector3 (1 / 2) 0 0)"
  by (simp add: isPointInShape_def julia_spec_def length_v_half julia_c_def Let_def
      eval_nat_numeral upt_rec)

text \<open>
  C4, amended. The iteration starts from the quaternion whose components, in the order
  w, x, y, z of the code, are \<open>1.5 p.x\<close>, \<open>1.5 p.y\<close>, \<open>1.5 p.z\<close> and 0: the zero is the
  z-component, and the w-component (the scalar part) is \<open>1.5 p.x\<close>. The map is the quaternion
  square plus \<open>c = (-0.2, 0.6, 0, 0)\<close>; the point is inside exactly when its norm is at most
  1.2 and the squared norm of each of the seven orbit points the loop checks (the start and
  the first six images) is at most 4; every point of norm above 1.2 is outside.
\<close>

theorem julia_membership:
  "isPointInShape Julia p radius =
     Inr (length_v p \<le> 1.2 \<and>
          list_all (\<lambda>k. quat_normSq ((julia_step ^^ k) (vx p * 1.5, vy p * 1.5, vz p * 1.5, 0)) \<le> 4)
            [0..<7])
   \<and> julia_step q = quat_add (quat_mul q q) julia_c
   \<and> julia_c = (- 0.2, 0.6, 0, 0)"
  by (simp add: isPointInShape_def Let_def julia_loop_list_all julia_step_square_plus_c julia_c_def not_less)

section \<open>The smoothing step of the animator\<close>

text \<open>
  C10. A tick leaves \<^verbatim>\<open>targetExplode\<close> and \<^verbatim>\<open>targetNoise\<close> of the physics state as they
  were: the audio boost acts on the local copies. The tick changes \<^verbatim>\<open>currentExplode\<close> and
  \<^verbatim>\<open>currentNoise\<close> only; the stored targets are set by the effect on a change of the
  parameters.
\<close>

theorem animate_keeps_targets:
  "targetExplode (animate audioOn audioLevel ps) = targetExplode ps
   \<and> targetNoise (animate audioOn audioLevel ps) = targetNoise ps
   \<and> animate audioOn audioLevel ps =
       ps \<lparr> currentExplode :=
              currentExplode ps + (boostedExplode audioOn audioLevel ps - currentExplode ps) * 0.08,
            currentNoise :=
              currentNoise ps + (boostedNoise audioOn audioLevel ps - currentNoise ps) * 0.08 \<rparr>
   \<and> targetExplode (onParamsChange params ps) = explode params
   \<and> targetNoise (onParamsChange params ps) = noise params"
  by (simp add: animate_def onParamsChange_def Let_def)

lemma boosted_animate:
  "boostedExplode a l (animate a l ps) = boostedExplode a l ps"
  "boostedNoise a l (animate a l ps) = boostedNoise a l ps"
  by (simp_all add: animate_def boostedExplode_def boostedNoise_def Let_def)

lemma boosted_ticks:
  "boostedExplode a l ((animate a l ^^ n) ps) = boostedExplode a l ps"
  "boostedNoise a l ((animate a l ^^ n) ps) = boostedNoise a l ps"
  by (induction n) (simp_all add: boosted_animate)

lemma animate_distance:
  "currentExplode (animate a l ps) - boostedExplode a l ps =
     0.92 * (currentExplode ps - boostedExplode a l ps)"
  "currentNoise (animate a l ps) - boostedNoise a l ps =
     0.92 * (currentNoise ps - boostedNoise a l ps)"
  by (simp_all add: animate_def Let_def algebra_simps)

lemma ticks_distance:
  "currentExplode ((animate a l ^^ n) ps) - boostedExplode a l ps =
     0.92 ^ n * (currentExplode ps - boostedExplode a l ps)"
  "currentNoise ((animate a l ^^ n) ps) - boostedNoise a l ps =
     0.92 ^ n * (currentNoise ps - boostedNoise a l ps)"
proof (induction n)
  case 0
  { case 1 show ?case by simp }
  { case 2 show ?case by simp }
next
  case (Suc n)
  { case 1
    have "currentExplode ((animate a l ^^ Suc n) ps) - boostedExplode a l ps =
        0.92 * (currentExplode ((animate a l ^^ n) ps) - boostedExplode a l ((animate a l ^^ n) ps))"
      using animate_distance(1) [of a l "(animate a l ^^ n) ps"] by (simp add: boosted_ticks)
    then show ?case by (simp add: Suc.IH(1) boosted_ticks) }
  { case 2
    have "currentNoise ((animate a l ^^ Suc n) ps) - boostedNoise a l ps =
        0.92 * (currentNoise ((animate a l ^^ n) ps) - boostedNoise a l ((animate a l ^^ n) ps))"
      using animate_distance(2) [of a l "(animate a l ^^ n) ps"] by (simp add: boosted_ticks)
    then show ?case by (simp add: Suc.IH(2) boosted_ticks) }
qed

lemma geometric_below:
  fixes d :: real
  shows "\<exists>N. \<forall>n\<ge>N. 0.92 ^ n * \<bar>d\<bar> < 0.001"
proof (cases "d = 0")
  case True
  then show ?thesis by simp
next
  case False
  then have "0 < 0.001 / \<bar>d\<bar>" by simp
  then obtain N where N: "(0.92::real) ^ N < 0.001 / \<bar>d\<bar>"
    using real_arch_pow_inv [of "0.001 / \<bar>d\<bar>" "0.92"] by auto
  have "0.92 ^ n * \<bar>d\<bar> < 0.001" if "N \<le> n" for n
  proof -
    have "(0.92::real) ^ n \<le> 0.92 ^ N"
      using that by (intro power_decreasing) simp_all
    with N have "(0.92::real) ^ n < 0.001 / \<bar>d\<bar>" by linarith
    with False show ?thesis by (simp add: pos_less_divide_eq)
  qed
  then show ?thesis by blast
qed

text \<open>
  C6. In a tick \<^verbatim>\<open>currentExplode\<close> moves by 0.08 times its distance to the target of the
  tick, and so does \<^verbatim>\<open>currentNoise\<close>; the distance to the target is multiplied by 0.92.
  With constant inputs the target of the tick is constant, after \<open>n\<close> ticks the distance is
  \<open>0.92 ^ n\<close> times the initial one, and for every initial state there is a number of ticks
  from which on both values stay within 0.001 of their targets.
\<close>

theorem smoothing_converges:
  "\<bar>currentExplode (animate a l ps) - boostedExplode a l ps\<bar> =
      0.92 * \<bar>currentExplode ps - boostedExplode a l ps\<bar>
   \<and> \<bar>currentNoise (animate a l ps) - boostedNoise a l ps\<bar> =
      0.92 * \<bar>currentNoise ps - boostedNoise a l ps\<bar>
   \<and> \<bar>currentExplode ((animate a l ^^ n) ps) - boostedExplode a l ps\<bar> =
      0.92 ^ n * \<bar>currentExplode ps - boostedExplode a l ps\<bar>
   \<and> \<bar>currentNoise ((animate a l ^^ n) ps) - boostedNoise a l ps\<bar> =
      0.92 ^ n * \<bar>currentNoise ps - boostedNoise a l ps\<bar>
   \<and> (\<exists>N. \<forall>m\<ge>N. \<bar>currentExplode ((animate a l ^^ m) ps) - boostedExplode a l ps\<bar> < 0.001
                  \<and> \<bar>currentNoise ((animate a l ^^ m) ps) - boostedNoise a l ps\<bar> < 0.001)"
proof -
  have one: "\<bar>currentExplode (animate a l ps) - boostedExplode a l ps\<bar> =
      0.92 * \<bar>currentExplode ps - boostedExplode a l ps\<bar>"
    "\<bar>currentNoise (animate a l ps) - boostedNoise a l ps\<bar> =
      0.92 * \<bar>currentNoise ps - boostedNoise a l ps\<bar>"
    unfolding animate_distance abs_mult by simp_all
  have many: "\<bar>currentExplode ((animate a l ^^ k) ps) - boostedExplode a l ps\<bar> =
      0.92 ^ k * \<bar>currentExplode ps - boostedExplode a l ps\<bar>"
    "\<bar>currentNoise ((animate a l ^^ k) ps) - boostedNoise a l ps\<bar> =
      0.92 ^ k * \<bar>currentNoise ps - boostedNoise a l ps\<bar>" for k
    by (simp_all add: ticks_distance abs_mult power_abs)
  obtain N1 where N1: "\<forall>m\<ge>N1. 0.92 ^ m * \<bar>currentExplode ps - boostedExplode a l ps\<bar> < 0.001"
    using geometric_below by blast
  obtain N2 where N2: "\<forall>m\<ge>N2. 0.92 ^ m * \<bar>currentNoise ps - boostedNoise a l ps\<bar> < 0.001"
    using geometric_below by blast
  have "\<forall>m\<ge>max N1 N2. \<bar>currentExplode ((animate a l ^^ m) ps) - boostedExplode a l ps\<bar> < 0.001
                  \<and> \<bar>currentNoise ((animate a l ^^ m) ps) - boostedNoise a l ps\<bar> < 0.001"
    using N1 N2 by (simp add: many)
  then have "\<exists>N. \<forall>m\<ge>N. \<bar>currentExplode ((animate a l ^^ m) ps) - boostedExplode a l ps\<bar> < 0.001
                  \<and> \<bar>currentNoise ((animate a l ^^ m) ps) - boostedNoise a l ps\<bar> < 0.001"
    by blast
  with one many [of n] show ?thesis by blast
qed

text \<open>
  The theorem at the state of a scramble (explode from 0 to 1, noise from 0.4 to 0.8) with
  audio off: 100 ticks suffice.
\<close>

theorem smoothing_converges_witness:
  "\<bar>currentExplode ((animate False 0 ^^ 100)
        \<lparr> currentExplode = 0, currentNoise = 0.4, targetExplode = 1, targetNoise = 0.8 \<rparr>) - 1\<bar> < 0.001
   \<and> \<bar>currentNoise ((animate False 0 ^^ 100)
        \<lparr> currentExplode = 0, currentNoise = 0.4, targetExplode = 1, targetNoise = 0.8 \<rparr>) - 0.8\<bar> < 0.001"
proof -
  let ?ps = "\<lparr> currentExplode = 0, currentNoise = 0.4, targetExplode = 1, targetNoise = 0.8 \<rparr>"
  have be: "boostedExplode False 0 ?ps = 1" and bn: "boostedNoise False 0 ?ps = 0.8"
    by (simp_all add: boostedExplode_def boostedNoise_def)
  have pw: "(0.92::real) ^ 100 * 1 < 0.001" "(0.92::real) ^ 100 * 0.4 < 0.001"
    by (simp_all add: power_divide)
  from smoothing_converges [of False 0 ?ps 100]
  have "\<bar>currentExplode ((animate False 0 ^^ 100) ?ps) - 1\<bar> = 0.92 ^ 100 * 1"
    and "\<bar>currentNoise ((animate False 0 ^^ 100) ?ps) - 0.8\<bar> = 0.92 ^ 100 * 0.4"
    unfolding be bn by simp_all
  with pw show ?thesis by (simp only:)
qed

section \<open>Export and rebuild without pieces\<close>

lemma rebuild_mesh:
  "puzzleMesh (fst (rebuildPuzzle pParams g sd)) =
     Some \<lparr> geometry = step (resolution pParams) * 0.92,
            count = length (survivingPositions pParams),
            instanceMatrix = map (\<lambda>pos. updateMatrix (Object3D pos (obj_quaternion (dummy sd)) (Vector3 1 1 1)))
                               (survivingPositions pParams),
            instanceColor = map baseColor (pieceData (fst (rebuildPuzzle pParams g sd))) \<rparr>"
  by (simp add: rebuildPuzzle_def Let_def split: prod.splits)

text \<open>
  C9. An export with nothing to export is a no-op: without scene data, without a built
  mesh, or with an empty piece array, \<^verbatim>\<open>exportSTL\<close> leaves the scene data as it is and
  downloads nothing (with a mesh and at least one piece it does download a file, still
  without changing the scene data). A rebuild in which no cell survives is not a failure: it
  yields the empty piece array and a mesh of zero instances, and an export after it is a
  no-op again.
\<close>

theorem export_without_pieces_is_noop:
  "exportSTL None = (None, [])
   \<and> (puzzleMesh sd = None \<or> pieceData sd = [] \<longrightarrow> exportSTL (Some sd) = (Some sd, []))
   \<and> (puzzleMesh sd \<noteq> None \<and> pieceData sd \<noteq> [] \<longrightarrow>
        fst (exportSTL (Some sd)) = Some sd \<and> snd (exportSTL (Some sd)) \<noteq> [])
   \<and> (survivingPositions pParams = [] \<longrightarrow>
        pieceData (fst (rebuildPuzzle pParams g sd)) = []
        \<and> pieceCount (fst (rebuildPuzzle pParams g sd)) = 0
        \<and> (\<exists>mesh. puzzleMesh (fst (rebuildPuzzle pParams g sd)) = Some mesh \<and> count mesh = 0)
        \<and> exportSTL (Some (fst (rebuildPuzzle pParams g sd))) =
            (Some (fst (rebuildPuzzle pParams g sd)), []))"
proof -
  have a: "exportSTL None = (None, [])"
    by (simp add: exportSTL_def)
  have b: "exportSTL (Some s) = (Some s, [])" if "puzzleMesh s = None \<or> pieceData s = []" for s
    using that by (auto simp: exportSTL_def Let_def split: option.splits)
  have c: "fst (exportSTL (Some sd)) = Some sd \<and> snd (exportSTL (Some sd)) \<noteq> []"
    if "puzzleMesh sd \<noteq> None \<and> pieceData sd \<noteq> []"
    using that by (auto simp: exportSTL_def Let_def split: option.splits)
  have d: "pieceData (fst (rebuildPuzzle pParams g sd)) = []" if "survivingPositions pParams = []"
    using that by (simp add: pieceData_rebuildPuzzle)
  show ?thesis
    using a b [of sd] c d b [of "fst (rebuildPuzzle pParams g sd)"]
    by (auto simp: pieceCount_def rebuild_mesh)
qed

text \<open>
  The theorem at the scene data before the first build and at the rebuild of a Designer
  composition without elements.
\<close>

theorem export_without_pieces_witness:
  "survivingPositions (initialParams \<lparr> mode := DESIGNER, elements := [] \<rparr>) = []
   \<and> pieceData initialSceneData = []
   \<and> exportSTL (Some initialSceneData) = (Some initialSceneData, [])
   \<and> pieceCount (fst (rebuildPuzzle (initialParams \<lparr> mode := DESIGNER, elements := [] \<rparr>)
                        (\<lambda>n. 0) initialSceneData)) = 0
   \<and> exportSTL (Some (fst (rebuildPuzzle (initialParams \<lparr> mode := DESIGNER, elements := [] \<rparr>)
                        (\<lambda>n. 0) initialSceneData))) =
       (Some (fst (rebuildPuzzle (initialParams \<lparr> mode := DESIGNER, elements := [] \<rparr>)
                        (\<lambda>n. 0) initialSceneData)), [])"
proof -
  let ?P = "initialParams \<lparr> mode := DESIGNER, elements := [] \<rparr>"
  have "pointInside ?P = (\<lambda>p. False)"
    by (rule ext) (simp add: pointInside_def designElements_def)
  then have e: "survivingPositions ?P = []"
    by (simp add: survivingPositions_def)
  have i: "pieceData initialSceneData = []"
    by (simp add: initialSceneData_def)
  from export_without_pieces_is_noop [of initialSceneData ?P "\<lambda>n. 0"] e i
  show ?thesis by simp
qed

section \<open>The outward direction of a piece\<close>











end
